theory Spec2Isabelle
  imports Main
begin

section \<open>JavaScript strings\<close>

text \<open>
  A JavaScript string is a sequence of UTF-16 code units. It is modelled as a
  \<^typ>\<open>string\<close>, a list of \<^typ>\<open>char\<close>, each \<^typ>\<open>char\<close> standing for one code unit
  below 256. All the literals and patterns of \<^verbatim>\<open>extention.ts\<close> are ASCII.
\<close>

text \<open>
  \<^verbatim>\<open>String.prototype.trim\<close> strips WhiteSpace and LineTerminator code units from
  both ends. Below 256 these are TAB, LF, VT, FF, CR, SPACE and NBSP.
\<close>

definition isWhiteSpace :: "char \<Rightarrow> bool" where
  "isWhiteSpace c =
     (c = CHR 0x09 \<or> c = CHR 0x0A \<or> c = CHR 0x0B \<or> c = CHR 0x0C \<or> c = CHR 0x0D
      \<or> c = CHR '' '' \<or> c = CHR 0xA0)"

definition trim :: "string \<Rightarrow> string" where
  "trim s = rev (dropWhile isWhiteSpace (rev (dropWhile isWhiteSpace s)))"

text \<open>
  \<^verbatim>\<open>s.split(sep)\<close> for a one-character separator: the pieces between the
  separators, in order; never the empty array (\<^verbatim>\<open>''.split('/')\<close> is \<^verbatim>\<open>['']\<close>), so
  the last case below never occurs (lemma \<open>split_nonempty\<close>).
\<close>

fun split :: "char \<Rightarrow> string \<Rightarrow> string list" where
  "split sep [] = [[]]"
| "split sep (c # cs) =
     (if c = sep then [] # split sep cs
      else case split sep cs of
             piece # pieces \<Rightarrow> (c # piece) # pieces
           | [] \<Rightarrow> [[c]])"

text \<open>\<^verbatim>\<open>s.substring(a, b)\<close> and \<^verbatim>\<open>s.substring(a)\<close> for \<open>a \<le> b\<close>.\<close>

definition substring :: "string \<Rightarrow> nat \<Rightarrow> nat \<Rightarrow> string" where
  "substring s a b = take (b - a) (drop a s)"

definition substringFrom :: "string \<Rightarrow> nat \<Rightarrow> string" where
  "substringFrom s a = drop a s"

text \<open>\<^verbatim>\<open>s[i]\<close>: the code unit at index \<open>i\<close>, or \<^verbatim>\<open>undefined\<close> past the end.\<close>

definition charAt :: "string \<Rightarrow> nat \<Rightarrow> char option" where
  "charAt s i = (if i < length s then Some (s ! i) else None)"

text \<open>\<^verbatim>\<open>s.includes(t)\<close>: \<open>t\<close> occurs in \<open>s\<close> as a contiguous piece.\<close>

fun includes_str :: "string \<Rightarrow> string \<Rightarrow> bool" where
  "includes_str [] t = (t = [])"
| "includes_str (c # cs) t = (take (length t) (c # cs) = t \<or> includes_str cs t)"

text \<open>\<^verbatim>\<open>xs.join(sep)\<close>.\<close>

fun join :: "string \<Rightarrow> string list \<Rightarrow> string" where
  "join sep [] = []"
| "join sep [x] = x"
| "join sep (x # y # ys) = x @ sep @ join sep (y # ys)"

text \<open>
  A non-negative integer in a template literal (\<^verbatim>\<open>`${n}`\<close>): its decimal
  digits, most significant first, no leading zero.
\<close>

fun numberToString :: "nat \<Rightarrow> string" where
  "numberToString n =
     (if n < 10 then [''0123456789'' ! n]
      else numberToString (n div 10) @ [''0123456789'' ! (n mod 10)])"

declare numberToString.simps [simp del]

section \<open>Regular expressions\<close>

text \<open>
  The patterns of the source use literal characters, one negated character
  class under \<^verbatim>\<open>+\<close>, concatenation, alternation, \<^verbatim>\<open>?\<close> and the end anchor
  \<^verbatim>\<open>$\<close>. None has the \<^verbatim>\<open>g\<close>, \<^verbatim>\<open>m\<close> or \<^verbatim>\<open>u\<close> flag, so \<^verbatim>\<open>test\<close> keeps no state and
  \<^verbatim>\<open>$\<close> is the end of the input.
\<close>

datatype regex =
    Empty
  | Chr char
  | Many1NoneOf "char list"
  | Seq regex regex
  | Alt regex regex
  | Opt regex
  | EndAnchor

text \<open>
  Canonicalize of the \<^verbatim>\<open>i\<close> flag maps a code unit to its upper case; a code
  unit of 128 or more is never mapped to one below 128, so against the ASCII
  patterns of the source only the letters \<^verbatim>\<open>a\<close> to \<^verbatim>\<open>z\<close> are affected.
\<close>

definition canonicalize :: "char \<Rightarrow> char" where
  "canonicalize c =
     (case map_of (zip ''abcdefghijklmnopqrstuvwxyz'' ''ABCDEFGHIJKLMNOPQRSTUVWXYZ'') c of
        Some upper \<Rightarrow> upper
      | None \<Rightarrow> c)"

definition charMatches :: "bool \<Rightarrow> char \<Rightarrow> char \<Rightarrow> bool" where
  "charMatches ignoreCase p c =
     (if ignoreCase then canonicalize p = canonicalize c else p = c)"

text \<open>
  One or more characters satisfying \<open>ok\<close> at the start of the input: the
  inputs left after them, the longest run first (\<^verbatim>\<open>+\<close> is greedy).
\<close>

fun many1 :: "(char \<Rightarrow> bool) \<Rightarrow> string \<Rightarrow> string list" where
  "many1 ok [] = []"
| "many1 ok (c # cs) = (if ok c then many1 ok cs @ [cs] else [])"

text \<open>
  Matching a pattern at the start of the input: the list of the inputs left
  after each way to match, in the order in which a backtracking matcher tries
  them (left alternative first, \<^verbatim>\<open>?\<close> and \<^verbatim>\<open>+\<close> greedy). The one character class
  of the source stands in a pattern without the \<^verbatim>\<open>i\<close> flag, so it compares
  characters as they are.
\<close>

fun matchAt :: "bool \<Rightarrow> regex \<Rightarrow> string \<Rightarrow> string list" where
  "matchAt ic Empty s = [s]"
| "matchAt ic (Chr p) s =
     (case s of [] \<Rightarrow> [] | c # cs \<Rightarrow> if charMatches ic p c then [cs] else [])"
| "matchAt ic (Many1NoneOf excluded) s = many1 (\<lambda>c. c \<notin> set excluded) s"
| "matchAt ic (Seq r1 r2) s = concat (map (matchAt ic r2) (matchAt ic r1 s))"
| "matchAt ic (Alt r1 r2) s = matchAt ic r1 s @ matchAt ic r2 s"
| "matchAt ic (Opt r) s = matchAt ic r s @ [s]"
| "matchAt ic EndAnchor s = (if s = [] then [s] else [])"

text \<open>
  The leftmost match: the text before it and the text after it, or \<open>None\<close>
  when the pattern matches nowhere.
\<close>

fun search :: "bool \<Rightarrow> regex \<Rightarrow> string \<Rightarrow> (string \<times> string) option" where
  "search ic r [] = (case matchAt ic r [] of [] \<Rightarrow> None | rest # _ \<Rightarrow> Some ([], rest))"
| "search ic r (c # cs) =
     (case matchAt ic r (c # cs) of
        rest # _ \<Rightarrow> Some ([], rest)
      | [] \<Rightarrow> (case search ic r cs of
                 None \<Rightarrow> None
               | Some (before, rest) \<Rightarrow> Some (c # before, rest)))"

text \<open>\<^verbatim>\<open>/r/.test(s)\<close> and \<^verbatim>\<open>/r/i.test(s)\<close>.\<close>

definition test :: "bool \<Rightarrow> regex \<Rightarrow> string \<Rightarrow> bool" where
  "test ic r s = (search ic r s \<noteq> None)"

text \<open>\<^verbatim>\<open>s.replace(/r/, '')\<close>: the leftmost match removed, once.\<close>

definition removeFirstMatch :: "bool \<Rightarrow> regex \<Rightarrow> string \<Rightarrow> string" where
  "removeFirstMatch ic r s =
     (case search ic r s of None \<Rightarrow> s | Some (before, rest) \<Rightarrow> before @ rest)"

text \<open>The characters of a literal word of a pattern, one after the other.\<close>

fun lit :: "string \<Rightarrow> regex" where
  "lit [] = Empty"
| "lit [c] = Chr c"
| "lit (c # d # cs) = Seq (Chr c) (lit (d # cs))"

section \<open>The data model\<close>

record CommitStructure =
  type :: string
  scope :: "string option"
  subject :: string
  body :: "string option"
  footer :: "string option"

record GitChanges =
  modified :: "string list"
  added :: "string list"
  deleted :: "string list"
  renamed :: "string list"
  untracked :: "string list"

section \<open>parseGitStatus\<close>

text \<open>The body of the \<^verbatim>\<open>forEach\<close>: one line of the status, pushed to one array or to none.\<close>

definition parseLine :: "GitChanges \<Rightarrow> string \<Rightarrow> GitChanges" where
  "parseLine changes line =
     (let statusCode = substring line 0 2;
          file = trim (substringFrom line 3)
      in if charAt statusCode 0 = Some CHR ''M'' \<or> charAt statusCode 1 = Some CHR ''M''
         then changes\<lparr>modified := modified changes @ [file]\<rparr>
         else if charAt statusCode 0 = Some CHR ''A'' \<or> includes_str statusCode ''A''
         then changes\<lparr>added := added changes @ [file]\<rparr>
         else if charAt statusCode 0 = Some CHR ''D'' \<or> includes_str statusCode ''D''
         then changes\<lparr>deleted := deleted changes @ [file]\<rparr>
         else if charAt statusCode 0 = Some CHR ''R'' \<or> includes_str statusCode ''R''
         then changes\<lparr>renamed := renamed changes @ [file]\<rparr>
         else if statusCode = ''??''
         then changes\<lparr>untracked := untracked changes @ [file]\<rparr>
         else changes)"

definition statusLines :: "string \<Rightarrow> string list" where
  "statusLines status = filter (\<lambda>line. line \<noteq> []) (split CHR 0x0A (trim status))"

definition noChanges :: GitChanges where
  "noChanges = \<lparr>modified = [], added = [], deleted = [], renamed = [], untracked = []\<rparr>"

definition parseGitStatus :: "string \<Rightarrow> GitChanges" where
  "parseGitStatus status = foldl parseLine noChanges (statusLines status)"

section \<open>selectCommitType\<close>

record QuickPickItem =
  label :: string
  description :: string

text \<open>The \<^verbatim>\<open>detail\<close> of an item, a caption with an emoji, is left out: nothing reads it.\<close>

definition types :: "QuickPickItem list" where
  "types =
     [\<lparr>label = ''feat'', description = ''A new feature''\<rparr>,
      \<lparr>label = ''fix'', description = ''A bug fix''\<rparr>,
      \<lparr>label = ''docs'', description = ''Documentation''\<rparr>,
      \<lparr>label = ''style'', description = ''Code style''\<rparr>,
      \<lparr>label = ''refactor'', description = ''Code refactoring''\<rparr>,
      \<lparr>label = ''test'', description = ''Adding tests''\<rparr>,
      \<lparr>label = ''chore'', description = ''Maintenance''\<rparr>,
      \<lparr>label = ''perf'', description = ''Performance''\<rparr>]"

text \<open>\<^verbatim>\<open>/test|spec|__tests__/i\<close>, \<^verbatim>\<open>/readme|\.md$/i\<close> and \<^verbatim>\<open>/\.css$|\.scss$|\.less$/i\<close>.\<close>

definition testFilePattern :: regex where
  "testFilePattern = Alt (lit ''test'') (Alt (lit ''spec'') (lit ''__tests__''))"

definition docsFilePattern :: regex where
  "docsFilePattern = Alt (lit ''readme'') (Seq (lit ''.md'') EndAnchor)"

definition styleFilePattern :: regex where
  "styleFilePattern =
     Alt (Seq (lit ''.css'') EndAnchor)
       (Alt (Seq (lit ''.scss'') EndAnchor) (Seq (lit ''.less'') EndAnchor))"

text \<open>The value of \<^verbatim>\<open>autoDetected\<close> when the quick pick opens.\<close>

definition autoDetect :: "GitChanges \<Rightarrow> string option" where
  "autoDetect changes =
     (let allFiles = modified changes @ added changes @ deleted changes
                     @ renamed changes @ untracked changes
      in if list_ex (\<lambda>f. test True testFilePattern f) allFiles then Some ''test''
         else if list_ex (\<lambda>f. f = ''package.json'' \<or> f = ''package-lock.json'') allFiles
         then Some ''chore''
         else if list_ex (\<lambda>f. test True docsFilePattern f) allFiles then Some ''docs''
         else if list_all (\<lambda>f. test True styleFilePattern f) allFiles then Some ''style''
         else None)"

definition typesToShow :: "string option \<Rightarrow> QuickPickItem list" where
  "typesToShow autoDetected =
     (case autoDetected of
        None \<Rightarrow> types
      | Some detected \<Rightarrow>
          (case find (\<lambda>t. label t = detected) types of
             None \<Rightarrow> types
           | Some detectedType \<Rightarrow>
               detectedType\<lparr>description := description detectedType @ '' (suggested)''\<rparr>
               # filter (\<lambda>t. label t \<noteq> detected) types))"

text \<open>
  \<^verbatim>\<open>showQuickPick\<close> is the user: the index, in the list shown, of the item
  picked, or \<open>None\<close> when the pick is dismissed. \<^verbatim>\<open>selected?.label || null\<close> is
  \<open>None\<close> for no item and for an empty label.
\<close>

definition selectCommitType :: "nat option \<Rightarrow> GitChanges \<Rightarrow> string option" where
  "selectCommitType showQuickPick changes =
     (let items = typesToShow (autoDetect changes);
          selected = (case showQuickPick of
                        None \<Rightarrow> None
                      | Some i \<Rightarrow> if i < length items then Some (items ! i) else None)
      in case selected of
           None \<Rightarrow> None
         | Some item \<Rightarrow> if label item = [] then None else Some (label item))"

section \<open>determineScope\<close>

text \<open>\<^verbatim>\<open>[...new Set(xs)]\<close>: the distinct elements, each where it first occurs.\<close>

primrec newSet :: "'a list \<Rightarrow> 'a list" where
  "newSet [] = []"
| "newSet (x # xs) = x # removeAll x (newSet xs)"

text \<open>\<^verbatim>\<open>/components?/i\<close>, \<^verbatim>\<open>/api|routes?/i\<close>, \<^verbatim>\<open>/utils?|helpers?/i\<close> and \<^verbatim>\<open>/types?/i\<close>.\<close>

definition componentsPattern :: regex where
  "componentsPattern = Seq (lit ''component'') (Opt (Chr CHR ''s''))"

definition apiScopePattern :: regex where
  "apiScopePattern = Alt (lit ''api'') (Seq (lit ''route'') (Opt (Chr CHR ''s'')))"

definition utilsPattern :: regex where
  "utilsPattern =
     Alt (Seq (lit ''util'') (Opt (Chr CHR ''s''))) (Seq (lit ''helper'') (Opt (Chr CHR ''s'')))"

definition typesScopePattern :: regex where
  "typesScopePattern = Seq (lit ''type'') (Opt (Chr CHR ''s''))"

text \<open>
  \<^verbatim>\<open>f.split('/')[0]\<close> is \<^term>\<open>hd (split CHR ''/'' f)\<close>: \<^const>\<open>split\<close> never returns the empty
  list. \<^verbatim>\<open>uniqueDirs[0]\<close> is read only when the length is 1.
\<close>

definition determineScope :: "GitChanges \<Rightarrow> string option" where
  "determineScope changes =
     (let allFiles = modified changes @ added changes @ deleted changes @ renamed changes
      in if length allFiles = 0 then None
         else
           let dirs = filter (\<lambda>d. d \<noteq> []) (map (\<lambda>f. hd (split CHR ''/'' f)) allFiles);
               uniqueDirs = newSet dirs
           in if length uniqueDirs = 1 \<and> hd uniqueDirs \<noteq> ''.'' then Some (hd uniqueDirs)
              else if list_all (\<lambda>f. test True componentsPattern f) allFiles
              then Some ''components''
              else if list_all (\<lambda>f. test True apiScopePattern f) allFiles then Some ''api''
              else if list_all (\<lambda>f. test True utilsPattern f) allFiles then Some ''utils''
              else if list_all (\<lambda>f. test True typesScopePattern f) allFiles then Some ''types''
              else None)"

section \<open>getFileName\<close>

text \<open>\<^verbatim>\<open>/\.[^/.]+$/\<close>, without the \<^verbatim>\<open>i\<close> flag.\<close>

definition extensionPattern :: regex where
  "extensionPattern = Seq (Chr CHR ''.'') (Seq (Many1NoneOf ''/.'') EndAnchor)"

text \<open>
  \<^verbatim>\<open>path.split('/').pop() || path\<close>: the last piece, or the whole path when the
  last piece is the empty string.
\<close>

definition getFileName :: "string \<Rightarrow> string" where
  "getFileName path =
     (let popped = last (split CHR ''/'' path);
          fileName = (if popped \<noteq> [] then popped else path)
      in removeFirstMatch False extensionPattern fileName)"

section \<open>categorizeFiles\<close>

text \<open>
  \<^verbatim>\<open>matchCount >= files.length * 0.6\<close> is a comparison of IEEE 754 doubles. The
  literal \<^verbatim>\<open>0.6\<close> is the double \<open>5404319552844595 / 2^53\<close> (bits
  \<^verbatim>\<open>0x3FE3333333333333\<close>), a little less than six tenths. An array length is an
  integer below \<open>2^32\<close>, a double itself, so the product is the exact product
  rounded to 53 significant bits, ties to even; no overflow or underflow can
  occur. All values are kept as integers scaled by \<open>2^53\<close>.
\<close>

definition significandOfPoint6 :: nat where
  "significandOfPoint6 = 5404319552844595"

text \<open>The number of binary digits of a natural number.\<close>

fun bitLength :: "nat \<Rightarrow> nat" where
  "bitLength n = (if n = 0 then 0 else Suc (bitLength (n div 2)))"

declare bitLength.simps [simp del]

text \<open>A natural number rounded to 53 significant bits, ties to even.\<close>

definition roundTo53Bits :: "nat \<Rightarrow> nat" where
  "roundTo53Bits p =
     (let bits = bitLength p
      in if bits \<le> 53 then p
         else
           let shift = bits - 53;
               q = p div 2 ^ shift;
               r = p mod 2 ^ shift;
               half = 2 ^ (shift - 1)
           in (if half < r \<or> (r = half \<and> odd q) then q + 1 else q) * 2 ^ shift)"

text \<open>\<^verbatim>\<open>n * 0.6\<close> as a double, scaled by \<open>2^53\<close>.\<close>

definition timesPoint6 :: "nat \<Rightarrow> nat" where
  "timesPoint6 n = roundTo53Bits (n * significandOfPoint6)"

text \<open>\<^verbatim>\<open>matchCount >= length * 0.6\<close>.\<close>

definition geTimesPoint6 :: "nat \<Rightarrow> nat \<Rightarrow> bool" where
  "geTimesPoint6 matchCount len = (timesPoint6 len \<le> matchCount * 2 ^ 53)"

text \<open>
  The object literal \<^verbatim>\<open>categories\<close>; \<^verbatim>\<open>Object.entries\<close> lists its keys, none of
  them an integer index, in the order in which they are written.
\<close>

definition categories :: "(string \<times> regex) list" where
  "categories =
     [(''components'', Seq (lit ''component'') (Opt (Chr CHR ''s''))),
      (''API routes'',
         Alt (lit ''api'')
           (Alt (Seq (lit ''route'') (Opt (Chr CHR ''s'')))
                (Seq (lit ''controller'') (Opt (Chr CHR ''s''))))),
      (''utilities'',
         Alt (Seq (lit ''util'') (Opt (Chr CHR ''s'')))
             (Seq (lit ''helper'') (Opt (Chr CHR ''s'')))),
      (''styles'',
         Alt (Seq (lit ''.css'') EndAnchor)
           (Alt (Seq (lit ''.scss'') EndAnchor)
              (Alt (Seq (lit ''.less'') EndAnchor)
                   (Seq (lit ''style'') (Opt (Chr CHR ''s'')))))),
      (''tests'', Alt (lit ''test'') (Alt (lit ''spec'') (lit ''__tests__''))),
      (''configuration'', Alt (lit ''config'') (lit ''.config.'')),
      (''types'',
         Alt (Seq (lit ''type'') (Opt (Chr CHR ''s''))) (Seq (lit ''.d.ts'') EndAnchor)),
      (''documentation'', Alt (lit ''readme'') (Seq (lit ''doc'') (Opt (Chr CHR ''s'')))),
      (''models'',
         Alt (Seq (lit ''model'') (Opt (Chr CHR ''s'')))
             (Seq (lit ''schema'') (Opt (Chr CHR ''s'')))),
      (''services'', Seq (lit ''service'') (Opt (Chr CHR ''s'')))]"

text \<open>The \<^verbatim>\<open>for\<close> loop over the entries: the first category that passes the test.\<close>

fun firstDominant :: "(string \<times> regex) list \<Rightarrow> string list \<Rightarrow> string option" where
  "firstDominant [] files = None"
| "firstDominant ((category, pattern) # entries) files =
     (let matchCount = length (filter (\<lambda>f. test True pattern f) files)
      in if geTimesPoint6 matchCount (length files) then Some category
         else firstDominant entries files)"

definition categorizeFiles :: "string list \<Rightarrow> string option" where
  "categorizeFiles files = firstDominant categories files"

section \<open>generateSubject\<close>

text \<open>
  \<^verbatim>\<open>changes.added[0]\<close> and its like are read only where the array has one
  element.
\<close>

definition generateSubject :: "GitChanges \<Rightarrow> string \<Rightarrow> nat \<Rightarrow> string" where
  "generateSubject changes ty totalFiles =
     (if length (added changes) = totalFiles then
        (if totalFiles = 1 then ''add '' @ getFileName (hd (added changes))
         else case categorizeFiles (added changes) of
                Some category \<Rightarrow> ''add '' @ category
              | None \<Rightarrow> ''add '' @ numberToString totalFiles @ '' new files'')
      else if length (deleted changes) = totalFiles then
        (if totalFiles = 1 then ''remove '' @ getFileName (hd (deleted changes))
         else ''remove '' @ numberToString totalFiles @ '' files'')
      else if length (modified changes) = 1 \<and> totalFiles = 1 then
        ''update '' @ getFileName (hd (modified changes))
      else
        let allFiles = modified changes @ added changes @ deleted changes
        in if totalFiles \<le> 3 then
             ''update '' @ join '', '' (map getFileName (take 3 allFiles))
           else case categorizeFiles allFiles of
                  Some category \<Rightarrow> ''update '' @ category
                | None \<Rightarrow>
                    if ty = ''feat'' then ''implement new feature''
                    else if ty = ''fix'' then ''fix multiple issues''
                    else if ty = ''refactor'' then ''refactor code structure''
                    else if ty = ''docs'' then ''update documentation''
                    else if ty = ''test'' then ''add test coverage''
                    else if ty = ''style'' then ''format code''
                    else if ty = ''chore'' then ''update dependencies''
                    else ''update '' @ numberToString totalFiles @ '' files'')"

section \<open>generateBody and generateSummary\<close>

definition generateSummary :: "GitChanges \<Rightarrow> string" where
  "generateSummary changes =
     (let parts = [];
          parts = (if length (added changes) > 0
                   then parts @ [numberToString (length (added changes)) @ '' added'']
                   else parts);
          parts = (if length (modified changes) > 0
                   then parts @ [numberToString (length (modified changes)) @ '' modified'']
                   else parts);
          parts = (if length (deleted changes) > 0
                   then parts @ [numberToString (length (deleted changes)) @ '' deleted'']
                   else parts);
          parts = (if length (renamed changes) > 0
                   then parts @ [numberToString (length (renamed changes)) @ '' renamed'']
                   else parts)
      in ''Changes: '' @ join '', '' parts)"

text \<open>
  \<^verbatim>\<open>maxFilesInBody\<close> is the setting read from the configuration, here an
  argument and an integer.
\<close>

definition generateBody :: "int \<Rightarrow> GitChanges \<Rightarrow> nat \<Rightarrow> string" where
  "generateBody maxFilesInBody changes totalFiles =
     (if int totalFiles > maxFilesInBody then generateSummary changes
      else
        let lines = [];
            lines = (if length (added changes) > 0
                     then lines @ [''Added:''] @ map (\<lambda>f. ''  - '' @ f) (added changes) @ [[]]
                     else lines);
            lines = (if length (modified changes) > 0
                     then lines @ [''Modified:''] @ map (\<lambda>f. ''  - '' @ f) (modified changes) @ [[]]
                     else lines);
            lines = (if length (deleted changes) > 0
                     then lines @ [''Deleted:''] @ map (\<lambda>f. ''  - '' @ f) (deleted changes) @ [[]]
                     else lines);
            lines = (if length (renamed changes) > 0
                     then lines @ [''Renamed:''] @ map (\<lambda>f. ''  - '' @ f) (renamed changes) @ [[]]
                     else lines)
        in trim (join [CHR 0x0A] lines))"

section \<open>generateFooter\<close>

text \<open>
  \<^verbatim>\<open>includeFooter\<close> is the setting; \<^verbatim>\<open>showInputBox\<close> is what the user typed, or
  \<open>None\<close> when the box is dismissed.
\<close>

definition generateFooter :: "bool \<Rightarrow> string option \<Rightarrow> string option" where
  "generateFooter includeFooter showInputBox =
     (if \<not> includeFooter then None
      else case showInputBox of
             None \<Rightarrow> None
           | Some issueNumber \<Rightarrow>
               if issueNumber \<noteq> [] \<and> trim issueNumber \<noteq> []
               then Some (''Closes #'' @ trim issueNumber)
               else None)"

section \<open>formatCommitMessage\<close>

definition formatCommitMessage :: "CommitStructure \<Rightarrow> string" where
  "formatCommitMessage structure =
     (let message = [];
          message = message @ type structure;
          message = (case scope structure of
                       None \<Rightarrow> message
                     | Some sc \<Rightarrow> if sc \<noteq> [] then message @ ''('' @ sc @ '')'' else message);
          message = message @ '': '' @ subject structure;
          message = (case body structure of
                       None \<Rightarrow> message
                     | Some b \<Rightarrow>
                         if b \<noteq> [] \<and> trim b \<noteq> []
                         then message @ [CHR 0x0A, CHR 0x0A] @ b else message);
          message = (case footer structure of
                       None \<Rightarrow> message
                     | Some f \<Rightarrow>
                         if f \<noteq> [] \<and> trim f \<noteq> []
                         then message @ [CHR 0x0A, CHR 0x0A] @ f else message)
      in message)"

section \<open>buildCommitStructure and the command\<close>

record Settings =
  maxFilesInBody :: int
  includeFooter :: bool

record User =
  showQuickPick :: "nat option"
  showInputBox :: "string option"

text \<open>The constant \<^verbatim>\<open>totalFiles\<close> of \<^verbatim>\<open>buildCommitStructure\<close>.\<close>

definition totalFiles :: "GitChanges \<Rightarrow> nat" where
  "totalFiles changes =
     length (modified changes) + length (added changes) + length (deleted changes)
     + length (renamed changes) + length (untracked changes)"

definition buildCommitStructure ::
    "Settings \<Rightarrow> User \<Rightarrow> GitChanges \<Rightarrow> CommitStructure option" where
  "buildCommitStructure config user changes =
     (case selectCommitType (showQuickPick user) changes of
        None \<Rightarrow> None
      | Some ty \<Rightarrow>
          Some \<lparr>type = ty,
                scope = determineScope changes,
                subject = generateSubject changes ty (totalFiles changes),
                body = Some (generateBody (maxFilesInBody config) changes (totalFiles changes)),
                footer = generateFooter (includeFooter config) (showInputBox user)\<rparr>)"

text \<open>
  What one run of the command \<^verbatim>\<open>commitGenerator.generate\<close> ends with: an error
  message, the warning, nothing (the user cancelled), or the message handed to
  \<^verbatim>\<open>setCommitMessage\<close>.
\<close>

datatype outcome =
    ShowErrorMessage string
  | ShowWarningMessage string
  | Cancelled
  | SetCommitMessage string

text \<open>
  \<open>workspaceOpen\<close> says whether a workspace folder is open; \<open>execSync\<close> is the
  result of \<^verbatim>\<open>git status --porcelain\<close>: its output, or the text of the error
  thrown.
\<close>

definition generate :: "bool \<Rightarrow> string + string \<Rightarrow> Settings \<Rightarrow> User \<Rightarrow> outcome" where
  "generate workspaceOpen execSync config user =
     (if \<not> workspaceOpen then ShowErrorMessage ''No workspace folder open''
      else case execSync of
             Inl error \<Rightarrow> ShowErrorMessage (''Failed to generate commit message: '' @ error)
           | Inr status \<Rightarrow>
               if trim status = [] then ShowWarningMessage ''No changes to commit''
               else
                 let changes = parseGitStatus status
                 in (case buildCommitStructure config user changes of
                       None \<Rightarrow> Cancelled
                     | Some commitStructure \<Rightarrow>
                         SetCommitMessage (formatCommitMessage commitStructure)))"

section \<open>The vocabulary of the specification\<close>

text \<open>
  The definitions of this section follow the words of the specification, not
  the source; the theorems below relate them to the functions above.
\<close>

datatype category = Modified | Added | Deleted | Renamed | Untracked

fun filesOf :: "category \<Rightarrow> GitChanges \<Rightarrow> string list" where
  "filesOf Modified changes = modified changes"
| "filesOf Added changes = added changes"
| "filesOf Deleted changes = deleted changes"
| "filesOf Renamed changes = renamed changes"
| "filesOf Untracked changes = untracked changes"

text \<open>
  The decision rule of the status parser: the status characters are the first
  two characters of the line, and the first rule that matches decides.
\<close>

definition statusRule :: "string \<Rightarrow> category option" where
  "statusRule line =
     (let statusChars = set (take 2 line)
      in if CHR ''M'' \<in> statusChars then Some Modified
         else if CHR ''A'' \<in> statusChars then Some Added
         else if CHR ''D'' \<in> statusChars then Some Deleted
         else if CHR ''R'' \<in> statusChars then Some Renamed
         else if take 2 line = ''??'' then Some Untracked
         else None)"

text \<open>The path of a status line: what follows the third character, trimmed.\<close>

definition pathOf :: "string \<Rightarrow> string" where
  "pathOf line = trim (drop 3 line)"

text \<open>
  The number of files of a pool that match a pattern, and "at least 60% of":
  \<open>m\<close> is at least 60% of \<open>n\<close> when \<open>m / n \<ge> 60 / 100\<close>.
\<close>

definition matchCount :: "regex \<Rightarrow> string list \<Rightarrow> nat" where
  "matchCount pattern files = length (filter (\<lambda>f. test True pattern f) files)"

definition atLeast60Percent :: "nat \<Rightarrow> nat \<Rightarrow> bool" where
  "atLeast60Percent m n = (60 * n \<le> 100 * m)"

definition dominant :: "string list \<Rightarrow> string \<times> regex \<Rightarrow> bool" where
  "dominant files entry = atLeast60Percent (matchCount (snd entry) files) (length files)"



text \<open>
  The header of a message, \<^verbatim>\<open>type(scope): subject\<close>, the parenthesised scope
  present when a scope is set; and a text that is missing, empty or made of
  white space only.
\<close>

definition header :: "CommitStructure \<Rightarrow> string" where
  "header structure =
     type structure
     @ (case scope structure of
          None \<Rightarrow> []
        | Some sc \<Rightarrow> if sc = [] then [] else ''('' @ sc @ '')'')
     @ '': '' @ subject structure"

definition blank :: "string option \<Rightarrow> bool" where
  "blank text = (case text of None \<Rightarrow> True | Some t \<Rightarrow> trim t = [])"

text \<open>A text after one blank line, or nothing when the text is blank.\<close>

definition afterBlankLine :: "string option \<Rightarrow> string" where
  "afterBlankLine text =
     (case text of
        None \<Rightarrow> []
      | Some t \<Rightarrow> if trim t = [] then [] else [CHR 0x0A, CHR 0x0A] @ t)"

text \<open>The parts of the summary: a count and the name of its category.\<close>

definition summaryParts :: "GitChanges \<Rightarrow> (nat \<times> string) list" where
  "summaryParts changes =
     [(length (added changes), ''added''), (length (modified changes), ''modified''),
      (length (deleted changes), ''deleted''), (length (renamed changes), ''renamed'')]"

section \<open>Lemmas on the status parser\<close>

lemma includes_str_single: "includes_str s [c] = (c \<in> set s)"
  by (induction s) auto

lemma line_cases:
  obtains "line = []" | a where "line = [a]" | a b rest where "line = a # b # rest"
  by (cases line; cases "tl line") auto

lemma parseLine_rule:
  "filesOf c (parseLine changes line) =
     filesOf c changes @ (if statusRule line = Some c then [pathOf line] else [])"
  by (cases line rule: line_cases; cases c)
     (simp_all add: parseLine_def statusRule_def substring_def substringFrom_def charAt_def
        includes_str_single pathOf_def Let_def)

lemma foldl_parseLine:
  "filesOf c (foldl parseLine changes ls) =
     filesOf c changes @ map pathOf (filter (\<lambda>l. statusRule l = Some c) ls)"
  by (induction ls arbitrary: changes) (simp_all add: parseLine_rule)

lemma filesOf_noChanges: "filesOf c noChanges = []"
  by (cases c) (simp_all add: noChanges_def)

lemma statusRule_AM:
  "take 2 line = ''AM'' \<or> take 2 line = ''MA'' \<Longrightarrow> statusRule line = Some Modified"
  by (auto simp: statusRule_def)

section \<open>The status parser\<close>

text \<open>
  Claim C1. Every line of the status is classified by the first rule that
  matches, in the order modified, added, deleted, renamed, untracked: each
  array of the result holds the paths of exactly the lines whose rule names
  it, in the order of the lines, and a line that no rule matches adds nothing
  to any array. A line whose two status characters are \<^verbatim>\<open>A\<close> and \<^verbatim>\<open>M\<close>, in
  either order, adds its path to \<^verbatim>\<open>modified\<close> and to no other array.
\<close>

theorem parseGitStatus_first_matching_rule:
  "filesOf c (parseGitStatus status) =
     map pathOf (filter (\<lambda>line. statusRule line = Some c) (statusLines status))
   \<and> filesOf c (parseLine changes line) =
       filesOf c changes @ (if statusRule line = Some c then [pathOf line] else [])
   \<and> (take 2 line = ''AM'' \<or> take 2 line = ''MA'' \<longrightarrow>
        filesOf c (parseLine changes line) =
          filesOf c changes @ (if c = Modified then [pathOf line] else []))"
proof (intro conjI impI)
  show "filesOf c (parseGitStatus status) =
     map pathOf (filter (\<lambda>line. statusRule line = Some c) (statusLines status))"
    by (simp add: parseGitStatus_def foldl_parseLine filesOf_noChanges)
  show "filesOf c (parseLine changes line) =
       filesOf c changes @ (if statusRule line = Some c then [pathOf line] else [])"
    by (rule parseLine_rule)
  assume "take 2 line = ''AM'' \<or> take 2 line = ''MA''"
  then have "statusRule line = Some Modified" by (rule statusRule_AM)
  then show "filesOf c (parseLine changes line) =
          filesOf c changes @ (if c = Modified then [pathOf line] else [])"
    by (auto simp: parseLine_rule)
qed

text \<open>
  The theorem at a status of four lines, \<^verbatim>\<open>AM src/a.ts\<close>, \<^verbatim>\<open>MA b.ts\<close>, \<^verbatim>\<open>UU c.ts\<close> and
  \<^verbatim>\<open>?? d.ts\<close>: the first two are modified and not added, the third is dropped.
\<close>

theorem parseGitStatus_first_matching_rule_witness:
  "filesOf Modified
     (parseGitStatus (''AM src/a.ts'' @ [CHR 0x0A] @ ''MA b.ts'' @ [CHR 0x0A]
                      @ ''UU c.ts'' @ [CHR 0x0A] @ ''?? d.ts'' @ [CHR 0x0A]))
     = [''src/a.ts'', ''b.ts'']
   \<and> filesOf Added
     (parseGitStatus (''AM src/a.ts'' @ [CHR 0x0A] @ ''MA b.ts'' @ [CHR 0x0A]
                      @ ''UU c.ts'' @ [CHR 0x0A] @ ''?? d.ts'' @ [CHR 0x0A]))
     = []
   \<and> take 2 ''AM src/a.ts'' = ''AM''
   \<and> filesOf Added (parseLine noChanges ''AM src/a.ts'') = []
   \<and> filesOf Modified (parseLine noChanges ''AM src/a.ts'') = [''src/a.ts'']"
  using
    parseGitStatus_first_matching_rule [of Modified
      "''AM src/a.ts'' @ [CHR 0x0A] @ ''MA b.ts'' @ [CHR 0x0A]
       @ ''UU c.ts'' @ [CHR 0x0A] @ ''?? d.ts'' @ [CHR 0x0A]" noChanges "''AM src/a.ts''"]
    parseGitStatus_first_matching_rule [of Added
      "''AM src/a.ts'' @ [CHR 0x0A] @ ''MA b.ts'' @ [CHR 0x0A]
       @ ''UU c.ts'' @ [CHR 0x0A] @ ''?? d.ts'' @ [CHR 0x0A]" noChanges "''AM src/a.ts''"]
  by (simp add: statusLines_def trim_def isWhiteSpace_def statusRule_def pathOf_def
        noChanges_def)

section \<open>Evaluating patterns\<close>

text \<open>Canonicalize on the ASCII characters that occur in paths, computed once.\<close>

lemma canonicalize_ascii:
  "canonicalize CHR ''a'' = CHR ''A''" "canonicalize CHR ''b'' = CHR ''B''"
  "canonicalize CHR ''c'' = CHR ''C''" "canonicalize CHR ''d'' = CHR ''D''"
  "canonicalize CHR ''e'' = CHR ''E''" "canonicalize CHR ''f'' = CHR ''F''"
  "canonicalize CHR ''g'' = CHR ''G''" "canonicalize CHR ''h'' = CHR ''H''"
  "canonicalize CHR ''i'' = CHR ''I''" "canonicalize CHR ''j'' = CHR ''J''"
  "canonicalize CHR ''k'' = CHR ''K''" "canonicalize CHR ''l'' = CHR ''L''"
  "canonicalize CHR ''m'' = CHR ''M''" "canonicalize CHR ''n'' = CHR ''N''"
  "canonicalize CHR ''o'' = CHR ''O''" "canonicalize CHR ''p'' = CHR ''P''"
  "canonicalize CHR ''q'' = CHR ''Q''" "canonicalize CHR ''r'' = CHR ''R''"
  "canonicalize CHR ''s'' = CHR ''S''" "canonicalize CHR ''t'' = CHR ''T''"
  "canonicalize CHR ''u'' = CHR ''U''" "canonicalize CHR ''v'' = CHR ''V''"
  "canonicalize CHR ''w'' = CHR ''W''" "canonicalize CHR ''x'' = CHR ''X''"
  "canonicalize CHR ''y'' = CHR ''Y''" "canonicalize CHR ''z'' = CHR ''Z''"
  "canonicalize CHR ''A'' = CHR ''A''" "canonicalize CHR ''B'' = CHR ''B''"
  "canonicalize CHR ''C'' = CHR ''C''" "canonicalize CHR ''D'' = CHR ''D''"
  "canonicalize CHR ''E'' = CHR ''E''" "canonicalize CHR ''F'' = CHR ''F''"
  "canonicalize CHR ''G'' = CHR ''G''" "canonicalize CHR ''H'' = CHR ''H''"
  "canonicalize CHR ''I'' = CHR ''I''" "canonicalize CHR ''J'' = CHR ''J''"
  "canonicalize CHR ''K'' = CHR ''K''" "canonicalize CHR ''L'' = CHR ''L''"
  "canonicalize CHR ''M'' = CHR ''M''" "canonicalize CHR ''N'' = CHR ''N''"
  "canonicalize CHR ''O'' = CHR ''O''" "canonicalize CHR ''P'' = CHR ''P''"
  "canonicalize CHR ''Q'' = CHR ''Q''" "canonicalize CHR ''R'' = CHR ''R''"
  "canonicalize CHR ''S'' = CHR ''S''" "canonicalize CHR ''T'' = CHR ''T''"
  "canonicalize CHR ''U'' = CHR ''U''" "canonicalize CHR ''V'' = CHR ''V''"
  "canonicalize CHR ''W'' = CHR ''W''" "canonicalize CHR ''X'' = CHR ''X''"
  "canonicalize CHR ''Y'' = CHR ''Y''" "canonicalize CHR ''Z'' = CHR ''Z''"
  "canonicalize CHR ''0'' = CHR ''0''" "canonicalize CHR ''1'' = CHR ''1''"
  "canonicalize CHR ''2'' = CHR ''2''" "canonicalize CHR ''3'' = CHR ''3''"
  "canonicalize CHR ''4'' = CHR ''4''" "canonicalize CHR ''5'' = CHR ''5''"
  "canonicalize CHR ''6'' = CHR ''6''" "canonicalize CHR ''7'' = CHR ''7''"
  "canonicalize CHR ''8'' = CHR ''8''" "canonicalize CHR ''9'' = CHR ''9''"
  "canonicalize CHR ''/'' = CHR ''/''" "canonicalize CHR ''.'' = CHR ''.''"
  "canonicalize CHR ''_'' = CHR ''_''" "canonicalize CHR ''-'' = CHR ''-''"
  "canonicalize CHR '' '' = CHR '' ''" "canonicalize CHR ''#'' = CHR ''#''"
  "canonicalize CHR ''?'' = CHR ''?''" "canonicalize CHR '':'' = CHR '':''"
  "canonicalize CHR ''('' = CHR ''(''" "canonicalize CHR '')'' = CHR '')''"
  "canonicalize CHR '','' = CHR '',''"
  by (simp_all add: canonicalize_def)

lemmas test_eval = test_def charMatches_def canonicalize_ascii

section \<open>Lemmas on the comparison with \<open>length * 0.6\<close>\<close>

lemma bitLength_le: "n < 2 ^ w \<Longrightarrow> bitLength n \<le> w"
proof (induction n arbitrary: w rule: bitLength.induct)
  case (1 n)
  show ?case
  proof (cases "n = 0")
    case True
    then show ?thesis by (simp add: bitLength.simps)
  next
    case False
    with 1(2) obtain v where w: "w = Suc v" by (cases w) auto
    with 1(2) have "n div 2 < 2 ^ v" by simp
    with 1(1) False have "bitLength (n div 2) \<le> v" by simp
    with False w show ?thesis by (subst bitLength.simps) simp
  qed
qed

lemma roundTo53Bits_exact: "bitLength p \<le> 53 \<Longrightarrow> roundTo53Bits p = p"
  by (simp add: roundTo53Bits_def)

lemma roundTo53Bits_lower:
  assumes "53 < bitLength p"
  shows "p < roundTo53Bits p + 2 ^ (bitLength p - 53)"
proof -
  define s where "s = bitLength p - 53"
  have "p = (p div 2 ^ s) * 2 ^ s + p mod 2 ^ s" by (rule div_mult_mod_eq [symmetric])
  moreover have "p mod 2 ^ s < 2 ^ s" by simp
  ultimately have "p < (p div 2 ^ s) * 2 ^ s + 2 ^ s" by linarith
  moreover have "(p div 2 ^ s) * 2 ^ s \<le> roundTo53Bits p"
    using assms by (simp add: roundTo53Bits_def Let_def s_def)
  ultimately show ?thesis unfolding s_def by linarith
qed

lemma roundTo53Bits_upper:
  assumes "53 < bitLength p" and "p \<le> t * 2 ^ (bitLength p - 53)"
  shows "roundTo53Bits p \<le> t * 2 ^ (bitLength p - 53)"
proof -
  define s where "s = bitLength p - 53"
  define q where "q = p div 2 ^ s"
  define r where "r = p mod 2 ^ s"
  have p: "p = q * 2 ^ s + r" unfolding q_def r_def by (rule div_mult_mod_eq [symmetric])
  have le: "p \<le> t * 2 ^ s" using assms(2) by (simp add: s_def)
  have "q \<le> t" 
  proof -
    have "q = p div 2 ^ s" by (simp add: q_def)
    also have "\<dots> \<le> (t * 2 ^ s) div 2 ^ s" using le by (rule div_le_mono)
    also have "\<dots> = t" by simp
    finally show ?thesis .
  qed
  have R: "roundTo53Bits p =
      (if 2 ^ (s - 1) < r \<or> (r = 2 ^ (s - 1) \<and> odd q) then q + 1 else q) * 2 ^ s"
    using assms(1) by (simp add: roundTo53Bits_def Let_def s_def q_def r_def)
  show ?thesis
  proof (cases "q = t")
    case True
    with p le have "r = 0" by simp
    with R True show ?thesis by (simp add: s_def)
  next
    case False
    with \<open>q \<le> t\<close> have "q + 1 \<le> t" by simp
    then have "(q + 1) * 2 ^ s \<le> t * 2 ^ s" by (rule mult_le_mono1)
    moreover have "roundTo53Bits p \<le> (q + 1) * 2 ^ s" by (simp add: R)
    ultimately show ?thesis unfolding s_def by linarith
  qed
qed

lemma power_split: "s \<le> k \<Longrightarrow> (2::nat) ^ (k - s) * 2 ^ s = 2 ^ k"
  by (simp flip: power_add)

lemma five_significand: "5 * significandOfPoint6 + 1 = 3 * 2 ^ 53"
  by (simp add: significandOfPoint6_def)

lemma geTimesPoint6_iff:
  assumes n: "n < 2 ^ 32"
  shows "geTimesPoint6 m n \<longleftrightarrow> 3 * n \<le> 5 * m"
proof -
  define p where "p = n * significandOfPoint6"
  have five: "5 * p + n = 3 * n * 2 ^ 53"
  proof -
    have "5 * p + n = n * (5 * significandOfPoint6 + 1)" by (simp add: p_def algebra_simps)
    also have "\<dots> = n * (3 * 2 ^ 53)" by (simp only: five_significand)
    finally show ?thesis by (simp only: mult.assoc mult.left_commute [of n 3])
  qed
  have "p < 2 ^ 32 * 2 ^ 53"
  proof -
    have "significandOfPoint6 < 2 ^ 53" by (simp add: significandOfPoint6_def)
    then have "p \<le> n * 2 ^ 53" unfolding p_def by (simp add: mult_le_mono2)
    also have "\<dots> < 2 ^ 32 * 2 ^ 53" using n by simp
    finally show ?thesis .
  qed
  then have "p < 2 ^ 85" by simp
  then have bits: "bitLength p \<le> 85" by (rule bitLength_le)
  show ?thesis
  proof
    assume ge: "geTimesPoint6 m n"
    then have R: "roundTo53Bits p \<le> m * 2 ^ 53"
      by (simp add: geTimesPoint6_def timesPoint6_def p_def)
    show "3 * n \<le> 5 * m"
    proof (rule ccontr)
      assume "\<not> 3 * n \<le> 5 * m"
      then have "5 * m + 1 \<le> 3 * n" by simp
      then have "(5 * m + 1) * 2 ^ 53 \<le> 3 * n * (2 ^ 53 :: nat)" by (rule mult_le_mono1)
      with five have low: "5 * m * 2 ^ 53 + 2 ^ 53 \<le> 5 * p + n" by (simp add: algebra_simps)
      show False
      proof (cases "bitLength p \<le> 53")
        case True
        then have "roundTo53Bits p = p" by (rule roundTo53Bits_exact)
        with R low n show False by simp
      next
        case False
        then have "p < roundTo53Bits p + 2 ^ (bitLength p - 53)"
          by (simp add: roundTo53Bits_lower)
        moreover have "(2::nat) ^ (bitLength p - 53) \<le> 2 ^ 32"
          using bits by (intro power_increasing) simp_all
        ultimately have "p < m * 2 ^ 53 + 2 ^ 32" using R by linarith
        with low n show False by simp
      qed
    qed
  next
    assume le: "3 * n \<le> 5 * m"
    then have "3 * n * (2 ^ 53 :: nat) \<le> 5 * m * 2 ^ 53" by (rule mult_le_mono1)
    with five have pm: "p \<le> m * 2 ^ 53" by simp
    have "roundTo53Bits p \<le> m * 2 ^ 53"
    proof (cases "bitLength p \<le> 53")
      case True
      then show ?thesis using pm by (simp add: roundTo53Bits_exact)
    next
      case False
      define s where "s = bitLength p - 53"
      have "s \<le> 53" using bits by (simp add: s_def)
      then have eq: "m * 2 ^ 53 = (m * 2 ^ (53 - s)) * 2 ^ s"
        by (simp only: mult.assoc power_split)
      from pm have "p \<le> (m * 2 ^ (53 - s)) * 2 ^ s" by (simp only: eq)
      with False have "roundTo53Bits p \<le> (m * 2 ^ (53 - s)) * 2 ^ s"
        unfolding s_def by (intro roundTo53Bits_upper) simp_all
      then show ?thesis by (simp only: eq)
    qed
    then show "geTimesPoint6 m n" by (simp add: geTimesPoint6_def timesPoint6_def p_def)
  qed
qed

text \<open>
  The rounding at work: in JavaScript \<^verbatim>\<open>3 * 0.6\<close> is \<^verbatim>\<open>1.7999999999999998\<close>, the
  double \<open>16212958658533784 / 2^53\<close>, and \<^verbatim>\<open>5 * 0.6\<close> is \<^verbatim>\<open>3\<close>.
\<close>

lemma timesPoint6_examples:
  "timesPoint6 3 = 16212958658533784" "timesPoint6 5 = 3 * 2 ^ 53"
  by (simp_all add: timesPoint6_def roundTo53Bits_def significandOfPoint6_def
        bitLength.simps Let_def)

lemma geTimesPoint6_percent:
  "n < 2 ^ 32 \<Longrightarrow> geTimesPoint6 m n = atLeast60Percent m n"
  by (simp add: geTimesPoint6_iff atLeast60Percent_def)

lemma firstDominant_find:
  "length files < 2 ^ 32 \<Longrightarrow>
   firstDominant entries files = map_option fst (find (dominant files) entries)"
  by (induction entries)
     (auto simp: geTimesPoint6_percent dominant_def matchCount_def)

lemma find_none_list_all: "find P xs = None \<longleftrightarrow> list_all (\<lambda>x. \<not> P x) xs"
  by (induction xs) auto

section \<open>The dominant category\<close>

text \<open>
  Claim C2. For a pool of files (an array, so of fewer than \<open>2^32\<close> elements) and
  every pattern, the test \<^verbatim>\<open>matchCount >= files.length * 0.6\<close> of the source,
  computed in double precision, holds exactly when the number of matching
  files is at least 60% of the size of the pool; \<^const>\<open>categorizeFiles\<close> returns the
  first category of the enumeration that is dominant in this sense, and none
  when there is none. The comparison holds for 3 of 5 and fails for 5 of 9: a
  pool of five files of which three match the first category gets that
  category, and a pool of nine files in which no category matches more than
  five gets none.
\<close>

theorem categorizeFiles_sixty_percent:
  assumes "length files < 2 ^ 32"
  shows "(geTimesPoint6 (matchCount pattern files) (length files)
            \<longleftrightarrow> atLeast60Percent (matchCount pattern files) (length files))
     \<and> categorizeFiles files = map_option fst (find (dominant files) categories)
     \<and> geTimesPoint6 3 5 \<and> \<not> geTimesPoint6 5 9
     \<and> (length files = 5 \<and> matchCount (snd (hd categories)) files = 3
          \<longrightarrow> categorizeFiles files = Some (fst (hd categories)))
     \<and> (length files = 9 \<and> list_all (\<lambda>entry. matchCount (snd entry) files \<le> 5) categories
          \<longrightarrow> categorizeFiles files = None)"
proof (intro conjI impI)
  show "geTimesPoint6 (matchCount pattern files) (length files)
            \<longleftrightarrow> atLeast60Percent (matchCount pattern files) (length files)"
    using assms by (rule geTimesPoint6_percent)
  show eq: "categorizeFiles files = map_option fst (find (dominant files) categories)"
    using assms by (simp add: categorizeFiles_def firstDominant_find)
  show "geTimesPoint6 3 5"
    by (simp add: geTimesPoint6_def timesPoint6_def roundTo53Bits_def significandOfPoint6_def
          bitLength.simps Let_def)
  show "\<not> geTimesPoint6 5 9"
    by (simp add: geTimesPoint6_def timesPoint6_def roundTo53Bits_def significandOfPoint6_def
          bitLength.simps Let_def)
  {
    assume "length files = 5 \<and> matchCount (snd (hd categories)) files = 3"
    then have "dominant files (hd categories)"
      by (simp add: dominant_def atLeast60Percent_def)
    moreover have "categories = hd categories # tl categories"
      by (simp add: categories_def)
    ultimately have "find (dominant files) categories = Some (hd categories)"
      by (metis find.simps(2))
    then show "categorizeFiles files = Some (fst (hd categories))"
      by (simp add: eq)
  }
  {
    assume a: "length files = 9 \<and> list_all (\<lambda>entry. matchCount (snd entry) files \<le> 5) categories"
    then have "list_all (\<lambda>entry. \<not> dominant files entry) categories"
      by (auto simp: dominant_def atLeast60Percent_def list_all_iff)
    then have "find (dominant files) categories = None"
      by (simp add: find_none_list_all)
    then show "categorizeFiles files = None"
      by (simp add: eq)
  }
qed

text \<open>
  The theorem at a pool of five files of which three match \<^verbatim>\<open>/components?/i\<close>, and
  at a pool of nine of which five do and no other pattern matches any.
\<close>

theorem categorizeFiles_sixty_percent_witness:
  "length [''components/a'', ''components/b'', ''Components/c'', ''x'', ''y''] < 2 ^ 32
   \<and> categorizeFiles [''components/a'', ''components/b'', ''Components/c'', ''x'', ''y'']
       = Some ''components''
   \<and> categorizeFiles
         [''components/a'', ''components/b'', ''Components/c'', ''component/d'',
          ''components/e'', ''v'', ''w'', ''x'', ''y'']
       = None"
proof -
  let ?five = "[''components/a'', ''components/b'', ''Components/c'', ''x'', ''y'']"
  let ?nine = "[''components/a'', ''components/b'', ''Components/c'', ''component/d'',
                ''components/e'', ''v'', ''w'', ''x'', ''y'']"
  have len5: "length ?five < 2 ^ 32" and len9: "length ?nine < 2 ^ 32"
    by simp_all
  have five: "length ?five = 5 \<and> matchCount (snd (hd categories)) ?five = 3"
    by (simp add: categories_def matchCount_def test_eval)
  have nine: "length ?nine = 9
      \<and> list_all (\<lambda>entry. matchCount (snd entry) ?nine \<le> 5) categories"
    by (simp add: categories_def matchCount_def test_eval)
  have name: "fst (hd categories) = ''components''"
    by (simp add: categories_def)
  from categorizeFiles_sixty_percent [OF len5] five
  have "categorizeFiles ?five = Some (fst (hd categories))" by blast
  moreover from categorizeFiles_sixty_percent [OF len9] nine
  have "categorizeFiles ?nine = None" by blast
  ultimately show ?thesis using len5 by (simp only: name simp_thms)
qed

section \<open>Lemmas on scopes and categories\<close>










lemma categories_head: "categories = (''components'', componentsPattern) # tl categories"
  by (simp add: categories_def componentsPattern_def)

lemma categorizeFiles_components:
  assumes "length files < 2 ^ 32"
    and "atLeast60Percent (matchCount componentsPattern files) (length files)"
  shows "categorizeFiles files = Some ''components''"
proof -
  have "firstDominant ((''components'', componentsPattern) # tl categories) files
      = Some ''components''"
    using assms by (simp add: geTimesPoint6_percent matchCount_def)
  then show ?thesis by (simp add: categorizeFiles_def flip: categories_head)
qed

lemma categorizeFiles_empty: "categorizeFiles [] = Some ''components''"
  by (rule categorizeFiles_components) (simp_all add: atLeast60Percent_def matchCount_def)



section \<open>The scope\<close>




text \<open>
  Claim C3. The change set of the single modified path \<^verbatim>\<open>README.md\<close>, as parsed
  from the status \<^verbatim>\<open>M  README.md\<close>. The suggestion is \<^verbatim>\<open>docs\<close>, shown first and
  marked as suggested, and the subject is \<^verbatim>\<open>update README\<close>. The scope is not
  missing: the only first segment is the path itself, which has no \<^verbatim>\<open>/\<close>, and
  \<^const>\<open>determineScope\<close> returns it, so the scope is \<^verbatim>\<open>README.md\<close>.
\<close>

theorem readme_only:
  "parseGitStatus ''M  README.md''
     = \<lparr>modified = [''README.md''], added = [], deleted = [], renamed = [],
          untracked = []\<rparr>
   \<and> autoDetect
       \<lparr>modified = [''README.md''], added = [], deleted = [], renamed = [],
          untracked = []\<rparr> = Some ''docs''
   \<and> hd (typesToShow (autoDetect
       \<lparr>modified = [''README.md''], added = [], deleted = [], renamed = [],
          untracked = []\<rparr>))
     = \<lparr>label = ''docs'', description = ''Documentation (suggested)''\<rparr>
   \<and> generateSubject
       \<lparr>modified = [''README.md''], added = [], deleted = [], renamed = [],
          untracked = []\<rparr> ty
       (totalFiles
          \<lparr>modified = [''README.md''], added = [], deleted = [], renamed = [],
             untracked = []\<rparr>)
     = ''update README''
   \<and> determineScope
       \<lparr>modified = [''README.md''], added = [], deleted = [], renamed = [],
          untracked = []\<rparr> = Some ''README.md''"
proof -
  let ?readme = "\<lparr>modified = [''README.md''], added = [], deleted = [], renamed = [],
      untracked = []\<rparr>"
  have parsed: "parseGitStatus ''M  README.md'' = ?readme"
    by (simp add: parseGitStatus_def statusLines_def trim_def isWhiteSpace_def parseLine_def
          substring_def substringFrom_def charAt_def noChanges_def)
  have detected: "autoDetect ?readme = Some ''docs''"
    by (simp add: autoDetect_def testFilePattern_def docsFilePattern_def test_eval)
  have shown: "hd (typesToShow (autoDetect ?readme))
      = \<lparr>label = ''docs'', description = ''Documentation (suggested)''\<rparr>"
    by (simp add: detected typesToShow_def types_def)
  have subj: "generateSubject ?readme ty (totalFiles ?readme) = ''update README''"
    by (simp add: generateSubject_def totalFiles_def getFileName_def removeFirstMatch_def
          extensionPattern_def charMatches_def)
  have sc: "determineScope ?readme = Some ''README.md''"
    by (simp add: determineScope_def)
  from parsed detected shown subj sc show ?thesis by (intro conjI)
qed

section \<open>The subject\<close>



text \<open>
  Claim C10. On the empty pool \<^const>\<open>categorizeFiles\<close> returns \<^verbatim>\<open>components\<close>, the
  first category: no file matches and \<open>0 \<ge> 0 * 0.6\<close>. So for every change set of
  more than three files that are all renamed or untracked, whatever the files
  are, the subject is \<^verbatim>\<open>update components\<close>.
\<close>

theorem empty_pool_components:
  "categorizeFiles [] = Some ''components''
   \<and> (modified changes = [] \<and> added changes = [] \<and> deleted changes = []
        \<and> 3 < totalFiles changes
        \<longrightarrow> generateSubject changes ty (totalFiles changes) = ''update components'')"
  by (simp add: categorizeFiles_empty generateSubject_def)

text \<open>
  The theorem at two renamed and two untracked files, none of which matches
  \<^verbatim>\<open>/components?/i\<close>.
\<close>

theorem empty_pool_components_witness:
  "categorizeFiles [] = Some ''components''
   \<and> \<not> list_ex (\<lambda>f. test True componentsPattern f) [''old.ts'', ''new.ts'', ''a.ts'', ''b.ts'']
   \<and> generateSubject
        \<lparr>modified = [], added = [], deleted = [], renamed = [''old.ts'', ''new.ts''],
         untracked = [''a.ts'', ''b.ts'']\<rparr> ''feat'' 4 = ''update components''"
proof -
  let ?changes = "\<lparr>modified = [], added = [], deleted = [],
         renamed = [''old.ts'', ''new.ts''], untracked = [''a.ts'', ''b.ts'']\<rparr>"
  have total: "totalFiles ?changes = 4" by (simp add: totalFiles_def)
  have none: "\<not> list_ex (\<lambda>f. test True componentsPattern f)
      [''old.ts'', ''new.ts'', ''a.ts'', ''b.ts'']"
    by (simp add: componentsPattern_def test_eval)
  from empty_pool_components [of ?changes "''feat''"] none
  show ?thesis by (simp add: total)
qed

section \<open>The body\<close>

lemma digit_not_newline: "n < 10 \<Longrightarrow> CHR 0x0A \<noteq> ''0123456789'' ! n"
proof -
  assume "n < 10"
  then have "''0123456789'' ! n \<in> set ''0123456789''" by (intro nth_mem) simp
  then show ?thesis by auto
qed

lemma numberToString_no_newline: "CHR 0x0A \<notin> set (numberToString n)"
proof (induction n rule: numberToString.induct)
  case (1 n)
  show ?case
  proof (cases "n < 10")
    case True
    then show ?thesis by (subst numberToString.simps) (simp add: digit_not_newline)
  next
    case False
    with 1 have "CHR 0x0A \<notin> set (numberToString (n div 10))" by simp
    moreover have "CHR 0x0A \<noteq> ''0123456789'' ! (n mod 10)" by (rule digit_not_newline) simp
    ultimately show ?thesis using False by (subst numberToString.simps) simp
  qed
qed

lemma set_join: "set (join sep xs) \<subseteq> set sep \<union> \<Union> (set ` set xs)"
  by (induction sep xs rule: join.induct) auto

lemma generateSummary_parts:
  "generateSummary changes =
     ''Changes: '' @ join '', ''
        (map (\<lambda>(count, name). numberToString count @ '' '' @ name)
           (filter (\<lambda>(count, name). 0 < count) (summaryParts changes)))"
  by (simp add: generateSummary_def summaryParts_def Let_def)

lemma generateSummary_one_line: "CHR 0x0A \<notin> set (generateSummary changes)"
proof -
  let ?parts = "map (\<lambda>(count, name). numberToString count @ '' '' @ name)
           (filter (\<lambda>(count, name). 0 < count) (summaryParts changes))"
  have "\<forall>part \<in> set ?parts. CHR 0x0A \<notin> set part"
    by (auto simp: summaryParts_def numberToString_no_newline)
  then have "CHR 0x0A \<notin> set (join '', '' ?parts)"
    using set_join [of "'', ''" ?parts] by auto
  then show ?thesis by (simp add: generateSummary_parts)
qed

lemma numberToString_examples:
  "numberToString 12 = ''12''" "numberToString 10 = ''10''" "numberToString 2 = ''2''"
  "numberToString 1 = ''1''" "numberToString (Suc 0) = ''1''"
  "numberToString (Suc (Suc 0)) = ''2''"
  by (simp_all add: numberToString.simps)

text \<open>
  Claim C6. For every change set and every count of files above the threshold
  \<^verbatim>\<open>maxFilesInBody\<close>, the body is the one line \<^verbatim>\<open>Changes:\<close> followed by the parts
  \<^verbatim>\<open><n> added\<close>, \<^verbatim>\<open><n> modified\<close>, \<^verbatim>\<open><n> deleted\<close>, \<^verbatim>\<open><n> renamed\<close>, in this order, those
  with a count of zero left out, joined by a comma and a space; the body holds
  no line break. For 12 added, 10 modified and 2 deleted paths, 24 files, and
  the threshold 20 the body is \<^verbatim>\<open>Changes: 12 added, 10 modified, 2 deleted\<close>.
\<close>

theorem generateBody_summary:
  "(maxFiles < int n \<longrightarrow>
      generateBody maxFiles changes n =
        ''Changes: '' @ join '', ''
          (map (\<lambda>(count, name). numberToString count @ '' '' @ name)
             (filter (\<lambda>(count, name). 0 < count) (summaryParts changes)))
      \<and> CHR 0x0A \<notin> set (generateBody maxFiles changes n))
   \<and> (length (added changes) = 12 \<and> length (modified changes) = 10
        \<and> length (deleted changes) = 2 \<and> renamed changes = [] \<and> untracked changes = []
      \<longrightarrow> totalFiles changes = 24
          \<and> generateBody 20 changes (totalFiles changes)
              = ''Changes: 12 added, 10 modified, 2 deleted'')"
proof (intro conjI impI)
  assume "maxFiles < int n"
  then have eq: "generateBody maxFiles changes n = generateSummary changes"
    by (simp add: generateBody_def)
  show "generateBody maxFiles changes n =
        ''Changes: '' @ join '', ''
          (map (\<lambda>(count, name). numberToString count @ '' '' @ name)
             (filter (\<lambda>(count, name). 0 < count) (summaryParts changes)))"
    unfolding eq by (rule generateSummary_parts)
  show "CHR 0x0A \<notin> set (generateBody maxFiles changes n)"
    unfolding eq by (rule generateSummary_one_line)
next
  assume a: "length (added changes) = 12 \<and> length (modified changes) = 10
        \<and> length (deleted changes) = 2 \<and> renamed changes = [] \<and> untracked changes = []"
  then show total: "totalFiles changes = 24" by (simp add: totalFiles_def)
  from a show "generateBody 20 changes (totalFiles changes)
              = ''Changes: 12 added, 10 modified, 2 deleted''"
    by (simp add: total generateBody_def generateSummary_def numberToString_examples)
qed

text \<open>
  The theorem at 24 files above the threshold 20, and at three files above the
  threshold 2 with no modified and no deleted path.
\<close>

theorem generateBody_summary_witness:
  "generateBody 20
     \<lparr>modified = replicate 10 ''m.ts'', added = replicate 12 ''a.ts'',
      deleted = replicate 2 ''d.ts'', renamed = [], untracked = []\<rparr> 24
     = ''Changes: 12 added, 10 modified, 2 deleted''
   \<and> generateBody 2
     \<lparr>modified = [], added = [''a.ts''], deleted = [], renamed = [''b.ts'', ''c.ts''],
      untracked = []\<rparr> 3
     = ''Changes: 1 added, 2 renamed''"
proof -
  let ?big = "\<lparr>modified = replicate 10 ''m.ts'', added = replicate 12 ''a.ts'',
      deleted = replicate 2 ''d.ts'', renamed = [], untracked = []\<rparr>"
  let ?small = "\<lparr>modified = [], added = [''a.ts''], deleted = [],
      renamed = [''b.ts'', ''c.ts''], untracked = []\<rparr>"
  from generateBody_summary [where maxFiles = 20 and n = 24 and changes = ?big]
    generateBody_summary [where maxFiles = 2 and n = 3 and changes = ?small]
  show ?thesis by (simp add: summaryParts_def totalFiles_def numberToString_examples)
qed

text \<open>
  Claim C9. The body does not depend on the untracked paths: for every change
  set, replacing its untracked paths by any others leaves both the listing and
  the summary as they are, so no untracked path is a bullet line and no count
  of the summary counts them. A change set with untracked paths only has the
  empty body, or the bare \<^verbatim>\<open>Changes:\<close> above the threshold.
\<close>

theorem generateBody_ignores_untracked:
  "generateBody maxFiles (changes\<lparr>untracked := files\<rparr>) n = generateBody maxFiles changes n
   \<and> generateSummary (changes\<lparr>untracked := files\<rparr>) = generateSummary changes
   \<and> (modified changes = [] \<and> added changes = [] \<and> deleted changes = []
        \<and> renamed changes = []
      \<longrightarrow> generateBody maxFiles changes n
            = (if maxFiles < int n then ''Changes: '' else []))"
  by (simp add: generateBody_def generateSummary_def trim_def)

text \<open>
  The theorem at a modified path with two untracked ones, and at two untracked
  paths alone, below and above the threshold.
\<close>

theorem generateBody_ignores_untracked_witness:
  "generateBody 20
     \<lparr>modified = [''a.ts''], added = [], deleted = [], renamed = [],
      untracked = [''secret.txt'', ''notes.md'']\<rparr> 3
   = ''Modified:'' @ [CHR 0x0A] @ ''  - a.ts''
   \<and> generateBody 20
     \<lparr>modified = [], added = [], deleted = [], renamed = [],
      untracked = [''secret.txt'', ''notes.md'']\<rparr> 2 = []
   \<and> generateBody 1
     \<lparr>modified = [], added = [], deleted = [], renamed = [],
      untracked = [''secret.txt'', ''notes.md'']\<rparr> 2 = ''Changes: ''"
proof -
  have listing: "generateBody 20
     \<lparr>modified = [''a.ts''], added = [], deleted = [], renamed = [], untracked = []\<rparr> 3
     = ''Modified:'' @ [CHR 0x0A] @ ''  - a.ts''"
    by (simp add: generateBody_def trim_def isWhiteSpace_def)
  from generateBody_ignores_untracked
      [where maxFiles = 20 and n = 3 and files = "[''secret.txt'', ''notes.md'']"
         and changes = "\<lparr>modified = [''a.ts''], added = [], deleted = [], renamed = [],
               untracked = []\<rparr>"]
    generateBody_ignores_untracked
      [where maxFiles = 20 and n = 2 and files = "[]"
         and changes = "\<lparr>modified = [], added = [], deleted = [], renamed = [],
               untracked = [''secret.txt'', ''notes.md'']\<rparr>"]
    generateBody_ignores_untracked
      [where maxFiles = 1 and n = 2 and files = "[]"
         and changes = "\<lparr>modified = [], added = [], deleted = [], renamed = [],
               untracked = [''secret.txt'', ''notes.md'']\<rparr>"]
  show ?thesis by (simp add: listing)
qed

section \<open>The message\<close>

lemma trim_Nil: "trim [] = []"
  by (simp add: trim_def)

lemma nonempty_and_not_blank: "(t \<noteq> [] \<and> trim t \<noteq> []) \<longleftrightarrow> trim t \<noteq> []"
  by (auto simp: trim_Nil)

text \<open>
  Claim C5, amended. For every commit structure the message is the header
  \<^verbatim>\<open>type(scope): subject\<close>, the parenthesised scope present when a scope is set,
  then the body after one blank line when the body has a character that is
  not white space, then the footer after one blank line when the footer has
  one. When body and footer are each missing, empty or white space only, the
  message is the header and nothing follows the subject.
\<close>

theorem formatCommitMessage_layout:
  "formatCommitMessage structure =
     header structure @ afterBlankLine (body structure) @ afterBlankLine (footer structure)
   \<and> (blank (body structure) \<and> blank (footer structure)
        \<longrightarrow> formatCommitMessage structure = header structure)"
  by (auto simp: formatCommitMessage_def header_def afterBlankLine_def blank_def
        nonempty_and_not_blank Let_def split: option.splits)

text \<open>
  The theorem at a structure with an empty body and no footer, and at one with
  a body of two lines and a footer.
\<close>

theorem formatCommitMessage_layout_witness:
  "formatCommitMessage \<lparr>type = ''feat'', scope = Some ''src'', subject = ''add Login'',
       body = Some [], footer = None\<rparr> = ''feat(src): add Login''
   \<and> formatCommitMessage \<lparr>type = ''fix'', scope = None, subject = ''update a'',
       body = Some (''Modified:'' @ [CHR 0x0A] @ ''  - a.ts''),
       footer = Some ''Closes #12''\<rparr>
     = ''fix: update a'' @ [CHR 0x0A, CHR 0x0A] @ ''Modified:'' @ [CHR 0x0A] @ ''  - a.ts''
       @ [CHR 0x0A, CHR 0x0A] @ ''Closes #12''"
  using
    formatCommitMessage_layout
      [of "\<lparr>type = ''feat'', scope = Some ''src'', subject = ''add Login'',
            body = Some [], footer = None\<rparr>"]
    formatCommitMessage_layout
      [of "\<lparr>type = ''fix'', scope = None, subject = ''update a'',
            body = Some (''Modified:'' @ [CHR 0x0A] @ ''  - a.ts''),
            footer = Some ''Closes #12''\<rparr>"]
  by (simp add: header_def afterBlankLine_def blank_def trim_def isWhiteSpace_def)

text \<open>
  Claim C5 as stated fails for a body that is not empty and is white space
  only: the body of one space is not appended.
\<close>

theorem formatCommitMessage_whitespace_body:
  "body \<lparr>type = ''feat'', scope = None, subject = ''x'', body = Some '' '', footer = None\<rparr>
     = Some '' ''
   \<and> '' '' \<noteq> []
   \<and> formatCommitMessage
        \<lparr>type = ''feat'', scope = None, subject = ''x'', body = Some '' '', footer = None\<rparr>
       = ''feat: x''
   \<and> formatCommitMessage
        \<lparr>type = ''feat'', scope = None, subject = ''x'', body = Some '' '', footer = None\<rparr>
       \<noteq> ''feat: x'' @ [CHR 0x0A, CHR 0x0A] @ '' ''"
  by (simp add: formatCommitMessage_def trim_def isWhiteSpace_def)

section \<open>The command\<close>

lemma parseGitStatus_blank: "trim status = [] \<Longrightarrow> parseGitStatus status = noChanges"
  by (simp add: parseGitStatus_def statusLines_def)

text \<open>
  The one guard of the command: a status that is empty or white space only
  ends with the warning \<^verbatim>\<open>No changes to commit\<close>, and no message is produced.
\<close>

lemma generate_blank_status:
  "trim status = [] \<Longrightarrow>
     generate True (Inr status) config user = ShowWarningMessage ''No changes to commit''"
  by (simp add: generate_def)

text \<open>
  Claim C7. A status from which no line is parsed into any array should end
  with the report that there is nothing to do, and with no message. The source
  does not do so when the status is not blank: the one line \<^verbatim>\<open>UU a.txt\<close> (an
  unmerged path) is parsed into no array, the guard on the text of the status
  lets it pass, the quick pick opens with \<^verbatim>\<open>style\<close> suggested, and once the
  second item, \<^verbatim>\<open>feat\<close>, is picked the command hands over the message
  \<^verbatim>\<open>feat: add components\<close>, made from no file at all.
\<close>

theorem generate_unparsed_status:
  "statusLines ''UU a.txt'' = [''UU a.txt'']
   \<and> statusRule ''UU a.txt'' = None
   \<and> parseGitStatus ''UU a.txt'' = noChanges
   \<and> generate True (Inr ''UU a.txt'') \<lparr>maxFilesInBody = 20, includeFooter = False\<rparr>
        \<lparr>showQuickPick = Some 1, showInputBox = None\<rparr>
       = SetCommitMessage ''feat: add components''"
proof (intro conjI)
  show "statusLines ''UU a.txt'' = [''UU a.txt'']"
    by (simp add: statusLines_def trim_def isWhiteSpace_def)
  show "statusRule ''UU a.txt'' = None"
    by (simp add: statusRule_def)
  show parsed: "parseGitStatus ''UU a.txt'' = noChanges"
    by (simp add: parseGitStatus_def statusLines_def trim_def isWhiteSpace_def parseLine_def
          substring_def substringFrom_def charAt_def)
  have notBlank: "trim ''UU a.txt'' \<noteq> []"
    by (simp add: trim_def isWhiteSpace_def)
  have detected: "autoDetect noChanges = Some ''style''"
    by (simp add: autoDetect_def noChanges_def)
  have ty: "selectCommitType (Some (Suc 0)) noChanges = Some ''feat''"
    by (simp add: selectCommitType_def detected typesToShow_def types_def)
  have sc: "determineScope noChanges = None"
    by (simp add: determineScope_def noChanges_def)
  have total: "totalFiles noChanges = 0"
    by (simp add: totalFiles_def noChanges_def)
  have subj: "generateSubject noChanges ''feat'' 0 = ''add components''"
    by (simp add: generateSubject_def noChanges_def categorizeFiles_empty)
  have bd: "generateBody 20 noChanges 0 = []"
    by (simp add: generateBody_def noChanges_def trim_def)
  have "buildCommitStructure \<lparr>maxFilesInBody = 20, includeFooter = False\<rparr>
        \<lparr>showQuickPick = Some 1, showInputBox = None\<rparr> noChanges
      = Some \<lparr>type = ''feat'', scope = None, subject = ''add components'', body = Some [],
          footer = None\<rparr>"
    by (simp add: buildCommitStructure_def ty sc total subj bd generateFooter_def)
  then show "generate True (Inr ''UU a.txt'') \<lparr>maxFilesInBody = 20, includeFooter = False\<rparr>
        \<lparr>showQuickPick = Some 1, showInputBox = None\<rparr>
       = SetCommitMessage ''feat: add components''"
    by (simp add: generate_def notBlank parsed formatCommitMessage_def)
qed

end
